theory Spec2Isabelle
  imports Main "HOL-Library.AList"
begin

section \<open>The thread backend of the worker farm (NodeThreadsWorker.js)\<close>

text \<open>
  A shallow embedding of the class \<open>ExperimentalWorker\<close> of
  \<^verbatim>\<open>packages/jest-worker/src/workers/NodeThreadsWorker.js\<close>: its fields become a
  record, its methods functions from the instance to the instance, what it does to the
  outside (threads spawned, messages posted, hooks invoked) is appended to a log, and an
  exception is a value of the result, also the exception of a constructor or of an
  assignment that the code runs.
\<close>

subsection \<open>JavaScript values\<close>

text \<open>
  The values a message can carry. Numbers are the integers and NaN (the retry counter
  only ever holds NaN or a count, which a double holds exactly below \<open>2^53\<close>; fractions
  and infinities are left out). An object is the list of its enumerable string-keyed
  properties in enumeration order: the code reads an object it receives through
  \<open>typeof\<close>, \<open>for ... in\<close> and \<open>extra[key]\<close> only.
\<close>

datatype jsval =
    JUndefined
  | JNull
  | JBool bool
  | JNum int
  | JNaN
  | JStr string
  | JObj "(string \<times> jsval) list"

text \<open>
  \<open>New c a ps\<close> is the object that \<open>new C(a)\<close> returned for the constructor named \<open>c\<close>,
  with the properties \<open>ps\<close> that assignments have stored on it since. What the
  constructor itself puts on the object belongs to the runtime, so the constructor and
  its argument are kept as they are.
\<close>

datatype built = New string jsval "(string \<times> jsval) list"

text \<open>
  The first argument of the completion hook: a value of a message as it came, or an
  object that \<open>onMessage\<close> built.
\<close>

datatype hook_error = Raw jsval | Obj built

text \<open>What a handler, a constructor or an assignment throws.\<close>

datatype js_exn = TypeError string | Uncaught jsval

text \<open>
  What \<open>error[key] = x\<close> does in strict mode: it stores the property, it leaves the own
  properties as they are (a setter up the prototype chain took the value), or it throws
  (a property that cannot be written, an object that cannot be extended).
\<close>

datatype assignment = Stored | Ignored | Refused js_exn

fun refuses :: "assignment \<Rightarrow> bool" where
  "refuses (Refused _) = True"
| "refuses _ = False"

text \<open>The type \<open>number\<close> of a field that Flow declares so.\<close>

datatype jsnum = NaN | Num int

text \<open>
  \<open>x++\<close> on a field that is \<open>undefined\<close> (\<open>None\<close>) or a number: ToNumber of
  \<open>undefined\<close> is NaN, and NaN + 1 is NaN.
\<close>

fun js_incr :: "jsnum option \<Rightarrow> jsnum" where
  "js_incr None = NaN"
| "js_incr (Some NaN) = NaN"
| "js_incr (Some (Num n)) = Num (n + 1)"

text \<open>\<open>a > b\<close> on numbers: false as soon as one side is NaN.\<close>

fun js_gt :: "jsnum \<Rightarrow> jsnum \<Rightarrow> bool" where
  "js_gt (Num a) (Num b) = (b < a)"
| "js_gt _ _ = False"

text \<open>
  \<open>a === b\<close> against a primitive constant: NaN equals nothing, and an object equals
  only itself, never a constant of another module.
\<close>

fun strict_eq :: "jsval \<Rightarrow> jsval \<Rightarrow> bool" where
  "strict_eq JNaN _ = False"
| "strict_eq (JObj _) _ = False"
| "strict_eq a b = (a = b)"

text \<open>\<open>typeof v\<close>; \<open>null\<close> is an \<open>'object'\<close> too.\<close>

fun js_typeof :: "jsval \<Rightarrow> string" where
  "js_typeof JUndefined = ''undefined''"
| "js_typeof JNull = ''object''"
| "js_typeof (JBool _) = ''boolean''"
| "js_typeof (JNum _) = ''number''"
| "js_typeof JNaN = ''number''"
| "js_typeof (JStr _) = ''string''"
| "js_typeof (JObj _) = ''object''"

text \<open>The keys a \<open>for (const key in v)\<close> visits, and \<open>v[key]\<close> for such a key.\<close>

fun own_props :: "jsval \<Rightarrow> (string \<times> jsval) list" where
  "own_props (JObj ps) = ps"
| "own_props _ = []"

definition for_in_keys :: "jsval \<Rightarrow> string list" where
  "for_in_keys v = remdups (map fst (own_props v))"

definition get_prop :: "jsval \<Rightarrow> string \<Rightarrow> jsval" where
  "get_prop v k = (case map_of (own_props v) k of None \<Rightarrow> JUndefined | Some x \<Rightarrow> x)"

text \<open>
  An assignment that stores: an existing property keeps its place, a new one comes last.
\<close>

fun store :: "string \<Rightarrow> jsval \<Rightarrow> built \<Rightarrow> built" where
  "store k x (New c a ps) = New c a (AList.update k x ps)"

text \<open>\<open>response[i]\<close>: reading past the end of an array gives \<open>undefined\<close>.\<close>

definition at :: "jsval list \<Rightarrow> nat \<Rightarrow> jsval" where
  "at response i = (if i < length response then response ! i else JUndefined)"

text \<open>Decimal digits of a number, for ToString.\<close>

fun decimal :: "nat \<Rightarrow> string" where
  "decimal n =
     (if n < 10 then [''0123456789'' ! n]
      else decimal (n div 10) @ [''0123456789'' ! (n mod 10)])"

declare decimal.simps [simp del]

subsection \<open>The runtime and the imported constants\<close>

text \<open>
  What the code reads from the JavaScript runtime is a parameter of the model:
  whether \<open>typeof global[name] === 'function'\<close>; what \<open>new global[name](a)\<close> throws, if it
  throws; what an assignment does to the object that \<open>new global[name](a)\<close> returned,
  given the key and the value; the string an object turns into where the code uses it as
  a property key or appends it to a string (the conversion runs the object's own
  methods; it is taken to return); and the stack that \<open>new Error(...)\<close> records in
  \<open>initialize\<close>.
\<close>

record runtime =
  global_function :: "string \<Rightarrow> bool"
  construct_throws :: "string \<Rightarrow> jsval \<Rightarrow> js_exn option"
  assign :: "string \<Rightarrow> jsval \<Rightarrow> string \<Rightarrow> jsval \<Rightarrow> assignment"
  object_to_string :: "jsval \<Rightarrow> string"
  new_error_stack :: jsval

text \<open>
  \<open>new C(a)\<close>. The name \<open>Error\<close> stands for the language's own constructor, in
  \<open>global\<close> as in the code: it returns an object on every argument.
\<close>

definition construct :: "runtime \<Rightarrow> string \<Rightarrow> jsval \<Rightarrow> js_exn + built" where
  "construct R c a =
     (if c = ''Error'' then Inr (New ''Error'' a [])
      else case construct_throws R c a of
             Some x \<Rightarrow> Inl x
           | None \<Rightarrow> Inr (New c a []))"

text \<open>
  What \<open>error[k] = x\<close> does. An object that \<open>Error\<close> built stores every property but
  \<open>__proto__\<close>, which the setter of \<open>Object.prototype\<close> takes.
\<close>

fun assignment_of :: "runtime \<Rightarrow> built \<Rightarrow> string \<Rightarrow> jsval \<Rightarrow> assignment" where
  "assignment_of R (New c a ps) k x =
     (if c = ''Error'' then (if k = ''__proto__'' then Ignored else Stored)
      else assign R c a k x)"

definition set_prop :: "runtime \<Rightarrow> string \<Rightarrow> jsval \<Rightarrow> built \<Rightarrow> js_exn + built" where
  "set_prop R k x e =
     (case assignment_of R e k x of
        Stored \<Rightarrow> Inr (store k x e)
      | Ignored \<Rightarrow> Inr e
      | Refused t \<Rightarrow> Inl t)"

fun to_string :: "runtime \<Rightarrow> jsval \<Rightarrow> string" where
  "to_string R JUndefined = ''undefined''"
| "to_string R JNull = ''null''"
| "to_string R (JBool b) = (if b then ''true'' else ''false'')"
| "to_string R (JNum i) = (if i < 0 then ''-'' @ decimal (nat (- i)) else decimal (nat i))"
| "to_string R JNaN = ''NaN''"
| "to_string R (JStr s) = s"
| "to_string R v = object_to_string R v"

text \<open>
  The module imports its message tags from \<^verbatim>\<open>'../types'\<close>, a file that is not among
  the sources. The spec (4.1) gives a discriminated message format tagged by kind, with
  INITIALIZE for the farm-to-worker direction and OK, CLIENT_ERROR and SETUP_ERROR for
  the worker-to-farm direction; the tags are modelled as distinct numbers in the order
  in which the spec lists them.
\<close>

text \<open>Modelled from the spec: the tag INITIALIZE of \<^verbatim>\<open>'../types'\<close>, first of its direction.\<close>

definition CHILD_MESSAGE_INITIALIZE :: jsval where
  "CHILD_MESSAGE_INITIALIZE = JNum 0"

text \<open>Modelled from the spec: the tag OK of \<^verbatim>\<open>'../types'\<close>, first of its direction.\<close>

definition PARENT_MESSAGE_OK :: jsval where
  "PARENT_MESSAGE_OK = JNum 0"

text \<open>Modelled from the spec: the tag CLIENT_ERROR of \<^verbatim>\<open>'../types'\<close>, second of its direction.\<close>

definition PARENT_MESSAGE_CLIENT_ERROR :: jsval where
  "PARENT_MESSAGE_CLIENT_ERROR = JNum 1"

text \<open>Modelled from the spec: the tag SETUP_ERROR of \<^verbatim>\<open>'../types'\<close>, third of its direction.\<close>

definition PARENT_MESSAGE_SETUP_ERROR :: jsval where
  "PARENT_MESSAGE_SETUP_ERROR = JNum 2"

subsection \<open>The worker instance\<close>

text \<open>
  The hooks \<open>onProcessStart\<close> and \<open>onProcessEnd\<close> are functions of the caller; the model
  names each by a number and records every invocation with its arguments. The start hook
  receives the worker itself, of which the record keeps the retry counter it could read
  at that moment. A hook is taken to return without calling back into the worker. Of a
  new thread the log keeps its number; the data it is created with (working directory,
  environment with the worker id, fork options) plays no part in what follows.
\<close>

type_synonym hook = nat

datatype effect =
    Spawn nat
  | PostMessage nat "jsval list"
  | CallStart hook "jsnum option"
  | CallEnd hook hook_error jsval

datatype completion = Normal | Thrown js_exn

record worker_options =
  maxRetries :: jsnum
  workerId :: jsval
  workerPath :: jsval
  setupArgs :: jsval
  forkOptions :: jsval

text \<open>
  The fields of the class, and the log. \<open>worker\<close> is the handle of the current thread
  (threads are numbered as they are spawned), \<open>onProcessEnd\<close> and \<open>retries\<close> are
  \<open>undefined\<close> (\<open>None\<close>) until something assigns them.
\<close>

record ExperimentalWorker =
  worker :: "nat option"
  options :: worker_options
  onProcessEnd :: "hook option"
  retries :: "jsnum option"
  effects :: "effect list"

fun is_Spawn :: "effect \<Rightarrow> bool" where
  "is_Spawn (Spawn _) = True"
| "is_Spawn _ = False"

fun is_CallStart :: "effect \<Rightarrow> bool" where
  "is_CallStart (CallStart _ _) = True"
| "is_CallStart _ = False"

fun is_CallEnd :: "effect \<Rightarrow> bool" where
  "is_CallEnd (CallEnd _ _ _) = True"
| "is_CallEnd _ = False"

definition emit :: "effect list \<Rightarrow> ExperimentalWorker \<Rightarrow> ExperimentalWorker" where
  "emit es w = w\<lparr>effects := effects w @ es\<rparr>"

text \<open>\<open>this._onProcessEnd(error, result)\<close>: calling \<open>undefined\<close> throws.\<close>

definition call_onProcessEnd ::
  "hook_error \<Rightarrow> jsval \<Rightarrow> ExperimentalWorker \<Rightarrow> completion \<times> ExperimentalWorker" where
  "call_onProcessEnd err res w =
     (case onProcessEnd w of
        None \<Rightarrow> (Thrown (TypeError ''this._onProcessEnd is not a function''), w)
      | Some h \<Rightarrow> (Normal, emit [CallEnd h err res] w))"

subsection \<open>onMessage\<close>

text \<open>
  The loop \<open>for (const key in extra) error[key] = extra[key]\<close>; an assignment that
  throws ends it.
\<close>

fun assign_all :: "runtime \<Rightarrow> jsval \<Rightarrow> string list \<Rightarrow> built \<Rightarrow> js_exn + built" where
  "assign_all R extra [] error = Inr error"
| "assign_all R extra (key # keys) error =
     (case set_prop R key (get_prop extra key) error of
        Inl x \<Rightarrow> Inl x
      | Inr error \<Rightarrow> assign_all R extra keys error)"

text \<open>
  The constructor \<open>Ctor\<close> of the CLIENT_ERROR case, by its name: the global that the
  kind names when \<open>typeof\<close> it is \<open>'function'\<close>, and \<open>Error\<close> otherwise.
\<close>

definition Ctor :: "runtime \<Rightarrow> jsval \<Rightarrow> string" where
  "Ctor R kind =
     (if global_function R (to_string R kind) then to_string R kind else ''Error'')"

text \<open>
  The error of the CLIENT_ERROR case: \<open>response[4]\<close> as it is, unless it is an
  object; then an object built by the global constructor that \<open>response[1]\<close> names (by
  \<open>Error\<close> when that global is not a function) from \<open>response[2]\<close>, with \<open>type\<close> and
  \<open>stack\<close> assigned first and every property of \<open>response[4]\<close> after them. The
  constructor and each assignment may throw.
\<close>

definition client_error :: "runtime \<Rightarrow> jsval list \<Rightarrow> js_exn + hook_error" where
  "client_error R response =
     (let error = at response 4 in
      if error \<noteq> JNull \<and> error \<noteq> JUndefined \<and> js_typeof error = ''object'' then
        let extra = error
        in case construct R (Ctor R (at response 1)) (at response 2) of
             Inl x \<Rightarrow> Inl x
           | Inr error \<Rightarrow>
               (case set_prop R ''type'' (at response 1) error of
                  Inl x \<Rightarrow> Inl x
                | Inr error \<Rightarrow>
                    (case set_prop R ''stack'' (at response 3) error of
                       Inl x \<Rightarrow> Inl x
                     | Inr error \<Rightarrow>
                         (case assign_all R extra (for_in_keys extra) error of
                            Inl x \<Rightarrow> Inl x
                          | Inr error \<Rightarrow> Inr (Obj error))))
      else Inr (Raw error))"

text \<open>
  The error of the SETUP_ERROR case. It is built by \<open>Error\<close>, on whose objects the
  assignments of \<open>type\<close> and \<open>stack\<close> store.
\<close>

definition setup_error :: "runtime \<Rightarrow> jsval list \<Rightarrow> hook_error" where
  "setup_error R response =
     (let error = New ''Error''
            (JStr (''Error when calling setup: '' @ to_string R (at response 2))) [];
          error = store ''type'' (at response 1) error;
          error = store ''stack'' (at response 3) error
      in Obj error)"

definition onMessage ::
  "runtime \<Rightarrow> jsval list \<Rightarrow> ExperimentalWorker \<Rightarrow> completion \<times> ExperimentalWorker" where
  "onMessage R response w =
     (if strict_eq (at response 0) PARENT_MESSAGE_OK then
        call_onProcessEnd (Raw JNull) (at response 1) w
      else if strict_eq (at response 0) PARENT_MESSAGE_CLIENT_ERROR then
        (case client_error R response of
           Inl x \<Rightarrow> (Thrown x, w)
         | Inr error \<Rightarrow> call_onProcessEnd error JNull w)
      else if strict_eq (at response 0) PARENT_MESSAGE_SETUP_ERROR then
        call_onProcessEnd (setup_error R response) JNull w
      else
        (Thrown (TypeError (''Unexpected response from worker: '' @ to_string R (at response 0))), w))"

subsection \<open>initialize, onExit, send and the constructor\<close>

text \<open>The reply that \<open>initialize\<close> emulates once the retries are exceeded.\<close>

definition retries_exceeded_reply :: "runtime \<Rightarrow> jsval list" where
  "retries_exceeded_reply R =
     [PARENT_MESSAGE_CLIENT_ERROR, JStr ''Error'', JStr ''Call retries were exceeded'',
      new_error_stack R, JObj [(''type'', JStr ''WorkerError'')]]"

definition next_thread :: "ExperimentalWorker \<Rightarrow> nat" where
  "next_thread w = length (filter is_Spawn (effects w))"

text \<open>
  The first half of \<open>initialize\<close>: a new thread replaces the current one, INITIALIZE
  is posted to it, and the retry counter is incremented.
\<close>

definition respawn :: "ExperimentalWorker \<Rightarrow> ExperimentalWorker" where
  "respawn w =
     (let t = next_thread w;
          w = emit [Spawn t] (w\<lparr>worker := Some t\<rparr>);
          w = emit [PostMessage t [CHILD_MESSAGE_INITIALIZE, JBool False,
                      workerPath (options w), setupArgs (options w)]] w
      in w\<lparr>retries := Some (js_incr (retries w))\<rparr>)"

definition retries_exceeded :: "ExperimentalWorker \<Rightarrow> bool" where
  "retries_exceeded w =
     (case retries w of None \<Rightarrow> False | Some r \<Rightarrow> js_gt r (maxRetries (options w)))"

definition initialize :: "runtime \<Rightarrow> ExperimentalWorker \<Rightarrow> completion \<times> ExperimentalWorker" where
  "initialize R w =
     (let w = respawn w in
      if retries_exceeded w then onMessage R (retries_exceeded_reply R) w
      else (Normal, w))"

definition onExit :: "runtime \<Rightarrow> int \<Rightarrow> ExperimentalWorker \<Rightarrow> completion \<times> ExperimentalWorker" where
  "onExit R exitCode w = (if exitCode \<noteq> 0 then initialize R w else (Normal, w))"

definition send ::
  "jsval list \<Rightarrow> hook \<Rightarrow> hook \<Rightarrow> ExperimentalWorker \<Rightarrow> completion \<times> ExperimentalWorker" where
  "send request onProcessStart onProcessEnd' w =
     (let w = emit [CallStart onProcessStart (retries w)] w;
          w = w\<lparr>onProcessEnd := Some onProcessEnd'\<rparr>;
          w = w\<lparr>retries := Some (Num 0)\<rparr>
      in case worker w of
           None \<Rightarrow> (Thrown (TypeError ''Cannot read property postMessage of undefined''), w)
         | Some t \<Rightarrow> (Normal, emit [PostMessage t request] w))"

definition constructor :: "runtime \<Rightarrow> worker_options \<Rightarrow> completion \<times> ExperimentalWorker" where
  "constructor R opts =
     initialize R \<lparr>worker = None, options = opts, onProcessEnd = None, retries = None, effects = []\<rparr>"

subsection \<open>Runs of events\<close>

text \<open>
  What reaches an instance after its construction: a call of \<open>send\<close>, a message of a
  thread, the exit of a thread. An exception that a handler throws ends the run.
\<close>

datatype event =
    Send "jsval list" hook hook
  | Message "jsval list"
  | Exit int

fun step :: "runtime \<Rightarrow> event \<Rightarrow> ExperimentalWorker \<Rightarrow> completion \<times> ExperimentalWorker" where
  "step R (Send request a b) w = send request a b w"
| "step R (Message response) w = onMessage R response w"
| "step R (Exit exitCode) w = onExit R exitCode w"

fun run :: "runtime \<Rightarrow> event list \<Rightarrow> ExperimentalWorker \<Rightarrow> completion \<times> ExperimentalWorker" where
  "run R [] w = (Normal, w)"
| "run R (e # es) w =
     (case step R e w of
        (Normal, w') \<Rightarrow> run R es w'
      | (Thrown x, w') \<Rightarrow> (Thrown x, w'))"

subsection \<open>Notions the properties are stated with\<close>

definition starts :: "effect list \<Rightarrow> effect list" where
  "starts es = filter is_CallStart es"

definition ends :: "effect list \<Rightarrow> effect list" where
  "ends es = filter is_CallEnd es"

definition spawns :: "effect list \<Rightarrow> effect list" where
  "spawns es = filter is_Spawn es"

text \<open>What a handler added to the log of \<open>w\<close> when it left \<open>w'\<close>.\<close>

definition added :: "ExperimentalWorker \<Rightarrow> ExperimentalWorker \<Rightarrow> effect list" where
  "added w w' = drop (length (effects w)) (effects w')"

fun end_hook :: "effect \<Rightarrow> hook option" where
  "end_hook (CallEnd h _ _) = Some h"
| "end_hook _ = None"

fun is_Send :: "event \<Rightarrow> bool" where
  "is_Send (Send _ _ _) = True"
| "is_Send _ = False"

text \<open>A message whose tag \<open>onMessage\<close> has a case for.\<close>

definition recognised :: "jsval list \<Rightarrow> bool" where
  "recognised response =
     (strict_eq (at response 0) PARENT_MESSAGE_OK \<or>
      strict_eq (at response 0) PARENT_MESSAGE_CLIENT_ERROR \<or>
      strict_eq (at response 0) PARENT_MESSAGE_SETUP_ERROR)"

text \<open>
  Whether the error of a CLIENT_ERROR reply can be rebuilt: its extra fields are no
  object, or the constructor returns and no assignment throws. It is stated on the
  runtime alone.
\<close>

definition rebuild_succeeds :: "runtime \<Rightarrow> jsval list \<Rightarrow> bool" where
  "rebuild_succeeds R response =
     (let extra = at response 4
      in extra = JNull \<or> js_typeof extra \<noteq> ''object'' \<or>
         (case construct R (Ctor R (at response 1)) (at response 2) of
            Inl x \<Rightarrow> False
          | Inr e \<Rightarrow>
              \<not> refuses (assignment_of R e ''type'' (at response 1)) \<and>
              \<not> refuses (assignment_of R e ''stack'' (at response 3)) \<and>
              list_all (\<lambda>k. \<not> refuses (assignment_of R e k (get_prop extra k)))
                (for_in_keys extra)))"

text \<open>A message that is to reach the completion hook.\<close>

definition delivers :: "runtime \<Rightarrow> jsval list \<Rightarrow> bool" where
  "delivers R response =
     (strict_eq (at response 0) PARENT_MESSAGE_OK \<or>
      strict_eq (at response 0) PARENT_MESSAGE_CLIENT_ERROR \<and> rebuild_succeeds R response \<or>
      strict_eq (at response 0) PARENT_MESSAGE_SETUP_ERROR)"

text \<open>
  How often the completion hook of a call is to be invoked by the events that follow
  its \<open>send\<close>, counted on the events alone: once by every message that delivers, once by
  every exit with a code other than zero that takes the count of such exits past
  \<open>maxRetries\<close>. A message that does not deliver ends the run, and so does the next
  \<open>send\<close>.
\<close>

fun hook_calls :: "runtime \<Rightarrow> jsnum \<Rightarrow> jsnum option \<Rightarrow> event list \<Rightarrow> nat" where
  "hook_calls R M r [] = 0"
| "hook_calls R M r (Send request a b # es) = 0"
| "hook_calls R M r (Message response # es) =
     (if delivers R response then 1 + hook_calls R M r es else 0)"
| "hook_calls R M r (Exit exitCode # es) =
     (if exitCode = 0 then hook_calls R M r es
      else (if js_gt (js_incr r) M then 1 else 0) + hook_calls R M (Some (js_incr r)) es)"

text \<open>
  Modelled from the spec: the tag END of \<^verbatim>\<open>'../types'\<close>, third of its direction, by
  which the farm asks a worker to shut down (4.1).
\<close>

definition CHILD_MESSAGE_END :: jsval where
  "CHILD_MESSAGE_END = JNum 2"

text \<open>A shutdown was requested of the current thread: END was posted to it.\<close>

fun is_END_to :: "nat \<Rightarrow> effect \<Rightarrow> bool" where
  "is_END_to t (PostMessage t' request) = (t' = t \<and> strict_eq (at request 0) CHILD_MESSAGE_END)"
| "is_END_to t _ = False"

definition shutdown_requested :: "ExperimentalWorker \<Rightarrow> bool" where
  "shutdown_requested w =
     (case worker w of None \<Rightarrow> False | Some t \<Rightarrow> list_ex (is_END_to t) (effects w))"

text \<open>The error that the emulated reply of \<open>initialize\<close> is rebuilt to.\<close>

definition retries_exceeded_error :: "runtime \<Rightarrow> hook_error" where
  "retries_exceeded_error R =
     Obj (New ''Error'' (JStr ''Call retries were exceeded'')
       [(''type'', JStr ''WorkerError''), (''stack'', new_error_stack R)])"

subsection \<open>A concrete runtime and a concrete worker\<close>

text \<open>
  A runtime with the globals \<open>Error\<close>, \<open>TypeError\<close>, \<open>RangeError\<close> and \<open>Promise\<close>:
  \<open>new Promise(a)\<close> throws for every value of a message, as none is a function, and
  the objects of the other constructors store what is assigned to them.
\<close>

definition node_runtime :: runtime where
  "node_runtime =
     \<lparr>global_function = (\<lambda>k. k \<in> set [''Error'', ''TypeError'', ''RangeError'', ''Promise'']),
      construct_throws = (\<lambda>c a. if c = ''Promise''
         then Some (TypeError ''Promise resolver is not a function'') else None),
      assign = (\<lambda>c a k x. Stored),
      object_to_string = (\<lambda>v. ''[object Object]''),
      new_error_stack = JStr ''Error: Call retries were exceeded''\<rparr>"

definition example_options :: worker_options where
  "example_options =
     \<lparr>maxRetries = Num 1, workerId = JNum 1, workerPath = JStr ''/worker.js'',
      setupArgs = JObj [], forkOptions = JObj []\<rparr>"

text \<open>The instance \<open>new ExperimentalWorker(example_options)\<close> before and after its first \<open>send\<close>.\<close>

definition fresh_worker :: ExperimentalWorker where
  "fresh_worker = snd (constructor node_runtime example_options)"

definition busy_worker :: ExperimentalWorker where
  "busy_worker = snd (send [JNum 1, JBool False, JStr ''run'', JObj []] 7 8 fresh_worker)"

section \<open>Properties\<close>

subsection \<open>Facts used throughout\<close>

lemmas tag_defs = PARENT_MESSAGE_OK_def PARENT_MESSAGE_CLIENT_ERROR_def
  PARENT_MESSAGE_SETUP_ERROR_def CHILD_MESSAGE_INITIALIZE_def

lemma fresh_worker_eq:
  "fresh_worker =
     \<lparr>worker = Some 0, options = example_options, onProcessEnd = None, retries = Some NaN,
      effects = [Spawn 0, PostMessage 0 [JNum 0, JBool False, JStr ''/worker.js'', JObj []]]\<rparr>"
  by (simp add: fresh_worker_def constructor_def initialize_def respawn_def emit_def
      next_thread_def retries_exceeded_def example_options_def tag_defs)

lemma busy_worker_eq:
  "busy_worker =
     \<lparr>worker = Some 0, options = example_options, onProcessEnd = Some 8,
      retries = Some (Num 0),
      effects = [Spawn 0, PostMessage 0 [JNum 0, JBool False, JStr ''/worker.js'', JObj []],
                 CallStart 7 (Some NaN),
                 PostMessage 0 [JNum 1, JBool False, JStr ''run'', JObj []]]\<rparr>"
  by (simp add: busy_worker_def fresh_worker_eq send_def emit_def)

lemma call_onProcessEnd_Some:
  "onProcessEnd w = Some h \<Longrightarrow> call_onProcessEnd err res w = (Normal, emit [CallEnd h err res] w)"
  by (simp add: call_onProcessEnd_def)

lemma call_onProcessEnd_None:
  "onProcessEnd w = None \<Longrightarrow>
   call_onProcessEnd err res w = (Thrown (TypeError ''this._onProcessEnd is not a function''), w)"
  by (simp add: call_onProcessEnd_def)

lemma added_emit [simp]: "added w (emit es w) = es"
  by (simp add: added_def emit_def)

lemma added_self [simp]: "added w w = []"
  by (simp add: added_def)

lemma emit_fields [simp]:
  "worker (emit es w) = worker w"
  "retries (emit es w) = retries w"
  "options (emit es w) = options w"
  "onProcessEnd (emit es w) = onProcessEnd w"
  "effects (emit es w) = effects w @ es"
  by (simp_all add: emit_def)

lemma strict_eq_eq: "strict_eq a b \<Longrightarrow> a = b"
  by (cases a) auto

lemma onMessage_client:
  "strict_eq (at response 0) PARENT_MESSAGE_CLIENT_ERROR \<Longrightarrow>
   onMessage R response w =
     (case client_error R response of
        Inl x \<Rightarrow> (Thrown x, w)
      | Inr error \<Rightarrow> call_onProcessEnd error JNull w)"
  by (auto simp: onMessage_def tag_defs dest!: strict_eq_eq)

lemma onMessage_setup:
  "strict_eq (at response 0) PARENT_MESSAGE_SETUP_ERROR \<Longrightarrow>
   onMessage R response w = call_onProcessEnd (setup_error R response) JNull w"
  by (auto simp: onMessage_def tag_defs dest!: strict_eq_eq)

lemma call_onProcessEnd_fields:
  "worker (snd (call_onProcessEnd err res w)) = worker w"
  "retries (snd (call_onProcessEnd err res w)) = retries w"
  "options (snd (call_onProcessEnd err res w)) = options w"
  "onProcessEnd (snd (call_onProcessEnd err res w)) = onProcessEnd w"
  by (simp_all add: call_onProcessEnd_def emit_def split: option.splits)

lemma call_onProcessEnd_spawns:
  "spawns (added w (snd (call_onProcessEnd err res w))) = []"
  by (simp add: call_onProcessEnd_def spawns_def split: option.splits)

lemma construct_Inr: "construct R c a = Inr e \<Longrightarrow> e = New c a []"
  by (auto simp: construct_def split: if_splits option.splits)

lemma assignment_of_store [simp]:
  "assignment_of R (store k x e) k' x' = assignment_of R e k' x'"
  by (cases e) simp

lemma set_prop_Inr:
  "set_prop R k x e = Inr e' \<Longrightarrow> assignment_of R e' k' x' = assignment_of R e k' x'"
  by (auto simp: set_prop_def split: assignment.splits)

lemma set_prop_Inr_iff:
  "(\<exists>e'. set_prop R k x e = Inr e') \<longleftrightarrow> \<not> refuses (assignment_of R e k x)"
  by (auto simp: set_prop_def split: assignment.splits)


lemma assign_all_Inr_iff:
  "(\<exists>e'. assign_all R extra ks e = Inr e') \<longleftrightarrow>
   list_all (\<lambda>k. \<not> refuses (assignment_of R e k (get_prop extra k))) ks"
proof (induction ks arbitrary: e)
  case Nil
  show ?case by simp
next
  case (Cons k ks)
  show ?case
  proof (cases "set_prop R k (get_prop extra k) e")
    case (Inl x)
    with set_prop_Inr_iff [of R k "get_prop extra k" e] show ?thesis
      by simp
  next
    case (Inr e1)
    with set_prop_Inr_iff [of R k "get_prop extra k" e]
    have "\<not> refuses (assignment_of R e k (get_prop extra k))"
      by auto
    moreover have "assignment_of R e1 k' x' = assignment_of R e k' x'" for k' x'
      using Inr by (rule set_prop_Inr)
    ultimately show ?thesis
      using Cons.IH [of e1] Inr by simp
  qed
qed





lemma client_error_raw:
  assumes "at response 4 = JNull \<or> js_typeof (at response 4) \<noteq> ''object''"
  shows "client_error R response = Inr (Raw (at response 4))"
  using assms by (auto simp: client_error_def Let_def)



lemma client_error_Inr_iff:
  "(\<exists>e. client_error R response = Inr e) \<longleftrightarrow> rebuild_succeeds R response"
proof (cases "at response 4 = JNull \<or> js_typeof (at response 4) \<noteq> ''object''")
  case True
  then show ?thesis
    by (auto simp: client_error_raw rebuild_succeeds_def Let_def)
next
  case False
  then have o: "at response 4 \<noteq> JNull" "at response 4 \<noteq> JUndefined"
    "js_typeof (at response 4) = ''object''"
    by auto
  let ?c = "Ctor R (at response 1)"
  show ?thesis
  proof (cases "construct R ?c (at response 2)")
    case (Inl x)
    then show ?thesis
      using o by (simp add: client_error_def rebuild_succeeds_def Let_def)
  next
    case (Inr e0)
    show ?thesis
    proof (cases "set_prop R ''type'' (at response 1) e0")
      case (Inl x)
      with set_prop_Inr_iff [of R "''type''" "at response 1" e0] show ?thesis
        using o Inr by (simp add: client_error_def rebuild_succeeds_def Let_def)
    next
      case e1: (Inr e1)
      have r1: "\<not> refuses (assignment_of R e0 ''type'' (at response 1))"
        using set_prop_Inr_iff [of R "''type''" "at response 1" e0] e1 by auto
      have a1: "assignment_of R e1 k x = assignment_of R e0 k x" for k x
        using e1 by (rule set_prop_Inr)
      show ?thesis
      proof (cases "set_prop R ''stack'' (at response 3) e1")
        case (Inl x)
        with set_prop_Inr_iff [of R "''stack''" "at response 3" e1] show ?thesis
          using o Inr e1 a1 by (simp add: client_error_def rebuild_succeeds_def Let_def)
      next
        case e2: (Inr e2)
        have r2: "\<not> refuses (assignment_of R e0 ''stack'' (at response 3))"
          using set_prop_Inr_iff [of R "''stack''" "at response 3" e1] e2 a1 by auto
        have a2: "assignment_of R e2 k x = assignment_of R e0 k x" for k x
          using set_prop_Inr [OF e2] a1 by simp
        have "(\<exists>e. client_error R response = Inr e) \<longleftrightarrow>
            (\<exists>e'. assign_all R (at response 4) (for_in_keys (at response 4)) e2 = Inr e')"
          using o Inr e1 e2
          by (auto simp: client_error_def Let_def split: sum.splits)
        also have "\<dots> \<longleftrightarrow> list_all
            (\<lambda>k. \<not> refuses (assignment_of R e0 k (get_prop (at response 4) k)))
            (for_in_keys (at response 4))"
          by (simp add: assign_all_Inr_iff a2)
        finally show ?thesis
          using o Inr r1 r2 by (simp add: rebuild_succeeds_def Let_def)
      qed
    qed
  qed
qed

lemma respawn_fields [simp]:
  "worker (respawn w) = Some (next_thread w)"
  "options (respawn w) = options w"
  "onProcessEnd (respawn w) = onProcessEnd w"
  "retries (respawn w) = Some (js_incr (retries w))"
  "effects (respawn w) = effects w @
     [Spawn (next_thread w),
      PostMessage (next_thread w)
        [CHILD_MESSAGE_INITIALIZE, JBool False, workerPath (options w), setupArgs (options w)]]"
  by (simp_all add: respawn_def Let_def emit_def)

lemma initialize_eq:
  "initialize R w =
     (if retries_exceeded (respawn w) then onMessage R (retries_exceeded_reply R) (respawn w)
      else (Normal, respawn w))"
  by (simp add: initialize_def Let_def)

lemma client_error_reply:
  "client_error R (retries_exceeded_reply R) = Inr (retries_exceeded_error R)"
  by (simp add: client_error_def retries_exceeded_reply_def retries_exceeded_error_def at_def
      for_in_keys_def get_prop_def construct_def set_prop_def Let_def Ctor_def)

lemma onMessage_reply:
  "onMessage R (retries_exceeded_reply R) w = call_onProcessEnd (retries_exceeded_error R) JNull w"
proof -
  have "strict_eq (at (retries_exceeded_reply R) 0) PARENT_MESSAGE_CLIENT_ERROR"
    by (simp add: retries_exceeded_reply_def at_def tag_defs)
  then show ?thesis
    by (simp add: onMessage_client client_error_reply)
qed

lemma retries_exceeded_respawn:
  "retries_exceeded (respawn w) = js_gt (js_incr (retries w)) (maxRetries (options w))"
  by (simp add: retries_exceeded_def)

lemma ends_append [simp]: "ends (xs @ ys) = ends xs @ ends ys"
  by (simp add: ends_def)

lemma starts_append [simp]: "starts (xs @ ys) = starts xs @ starts ys"
  by (simp add: starts_def)

lemma spawns_append [simp]: "spawns (xs @ ys) = spawns xs @ spawns ys"
  by (simp add: spawns_def)

lemma filters_simps [simp]:
  "ends [] = []" "starts [] = []" "spawns [] = []"
  "ends (Spawn t # xs) = ends xs" "ends (PostMessage t m # xs) = ends xs"
  "ends (CallStart h r # xs) = ends xs" "ends (CallEnd h e v # xs) = CallEnd h e v # ends xs"
  "starts (Spawn t # xs) = starts xs" "starts (PostMessage t m # xs) = starts xs"
  "starts (CallStart h r # xs) = CallStart h r # starts xs" "starts (CallEnd h e v # xs) = starts xs"
  "spawns (Spawn t # xs) = Spawn t # spawns xs" "spawns (PostMessage t m # xs) = spawns xs"
  "spawns (CallStart h r # xs) = spawns xs" "spawns (CallEnd h e v # xs) = spawns xs"
  by (simp_all add: ends_def starts_def spawns_def)

lemma added_append [simp]: "effects w' = effects w @ xs \<Longrightarrow> added w w' = xs"
  by (simp add: added_def)

lemma run_append:
  "run R (es @ fs) w =
     (case run R es w of (Normal, w') \<Rightarrow> run R fs w' | (Thrown x, w') \<Rightarrow> (Thrown x, w'))"
  by (induction es arbitrary: w) (auto split: prod.splits completion.splits)

lemma initialize_not_exceeded:
  "\<not> js_gt (js_incr (retries w)) (maxRetries (options w)) \<Longrightarrow>
   initialize R w = (Normal, respawn w)"
  by (simp add: initialize_eq retries_exceeded_respawn)

lemma initialize_exceeded:
  "js_gt (js_incr (retries w)) (maxRetries (options w)) \<Longrightarrow>
   initialize R w = call_onProcessEnd (retries_exceeded_error R) JNull (respawn w)"
  by (simp add: initialize_eq retries_exceeded_respawn onMessage_reply)

lemma js_gt_NaN [simp]: "js_gt NaN m = False"
  by (cases m) simp_all

lemma initialize_unset:
  assumes "retries w = None \<or> retries w = Some NaN"
  shows "initialize R w = (Normal, respawn w)" and "retries (respawn w) = Some NaN"
    and "\<not> retries_exceeded (respawn w)"
  using assms by (auto simp: initialize_eq retries_exceeded_respawn)

lemma run_exits_unset:
  assumes "retries w = Some NaN"
  shows "fst (run R (map Exit codes) w) = Normal \<and>
         retries (snd (run R (map Exit codes) w)) = Some NaN \<and>
         onProcessEnd (snd (run R (map Exit codes) w)) = onProcessEnd w \<and>
         ends (effects (snd (run R (map Exit codes) w))) = ends (effects w) \<and>
         length (spawns (effects (snd (run R (map Exit codes) w)))) =
           length (spawns (effects w)) + length (filter (\<lambda>c. c \<noteq> 0) codes)"
  using assms
proof (induction codes arbitrary: w)
  case Nil
  then show ?case by simp
next
  case (Cons c codes)
  show ?case
  proof (cases "c = 0")
    case True
    with Cons show ?thesis
      by (simp add: onExit_def)
  next
    case False
    have i: "initialize R w = (Normal, respawn w)" and r: "retries (respawn w) = Some NaN"
      using Cons.prems by (simp_all add: initialize_unset)
    from Cons.IH [OF r] False i show ?thesis
      by (simp add: onExit_def)
  qed
qed

lemma run_exits_below_bound:
  assumes "retries w = Some (Num n)" and "maxRetries (options w) = Num M"
    and "n + int k \<le> M" and "c \<noteq> 0"
  shows "fst (run R (replicate k (Exit c)) w) = Normal \<and>
         retries (snd (run R (replicate k (Exit c)) w)) = Some (Num (n + int k)) \<and>
         options (snd (run R (replicate k (Exit c)) w)) = options w \<and>
         onProcessEnd (snd (run R (replicate k (Exit c)) w)) = onProcessEnd w \<and>
         ends (effects (snd (run R (replicate k (Exit c)) w))) = ends (effects w)"
  using assms
proof (induction k arbitrary: w n)
  case 0
  then show ?case by simp
next
  case (Suc k)
  have "\<not> js_gt (js_incr (retries w)) (maxRetries (options w))"
    using Suc.prems by simp
  then have i: "initialize R w = (Normal, respawn w)"
    by (rule initialize_not_exceeded)
  have "retries (respawn w) = Some (Num (n + 1))" "maxRetries (options (respawn w)) = Num M"
    "n + 1 + int k \<le> M"
    using Suc.prems by simp_all
  from Suc.IH [OF this \<open>c \<noteq> 0\<close>] i \<open>c \<noteq> 0\<close> show ?case
    by (simp add: onExit_def add.assoc)
qed

lemma run_exits_reach_bound:
  assumes "retries w = Some (Num 0)" and "maxRetries (options w) = Num (int M)"
    and "onProcessEnd w = Some h" and "c \<noteq> 0"
  shows "fst (run R (replicate (Suc M) (Exit c)) w) = Normal \<and>
         ends (effects (snd (run R (replicate (Suc M) (Exit c)) w))) =
           ends (effects w) @ [CallEnd h (retries_exceeded_error R) JNull]"
proof -
  obtain x w' where r: "run R (replicate M (Exit c)) w = (x, w')"
    by (cases "run R (replicate M (Exit c)) w")
  have "0 + int M \<le> int M"
    by simp
  from run_exits_below_bound [OF assms(1,2) this assms(4), of R] r
  have x: "x = Normal" and w': "retries w' = Some (Num (int M))" "options w' = options w"
    "onProcessEnd w' = Some h" "ends (effects w') = ends (effects w)"
    using assms(3) by simp_all
  have "js_gt (js_incr (retries w')) (maxRetries (options w'))"
    using w' assms(2) by simp
  then have "initialize R w' = call_onProcessEnd (retries_exceeded_error R) JNull (respawn w')"
    by (rule initialize_exceeded)
  also have "\<dots> = (Normal, emit [CallEnd h (retries_exceeded_error R) JNull] (respawn w'))"
    using w' by (simp add: call_onProcessEnd_Some)
  finally have i: "initialize R w' =
      (Normal, emit [CallEnd h (retries_exceeded_error R) JNull] (respawn w'))" .
  have "run R (replicate (Suc M) (Exit c)) w = run R (replicate M (Exit c) @ [Exit c]) w"
    by (simp add: replicate_append_same)
  also have "\<dots> = initialize R w'"
    using assms(4) by (simp add: run_append r x onExit_def split: prod.splits completion.splits)
  finally show ?thesis
    using w' by (simp add: i)
qed

lemma onMessage_delivers:
  assumes "delivers R response"
  shows "\<exists>err res. onMessage R response w = call_onProcessEnd err res w"
  using assms unfolding delivers_def
proof (elim disjE conjE)
  assume "strict_eq (at response 0) PARENT_MESSAGE_OK"
  then show ?thesis
    by (auto simp: onMessage_def)
next
  assume c: "strict_eq (at response 0) PARENT_MESSAGE_CLIENT_ERROR"
    and "rebuild_succeeds R response"
  then obtain e where "client_error R response = Inr e"
    using client_error_Inr_iff [of R response] by blast
  then have "onMessage R response w = call_onProcessEnd e JNull w"
    using c by (simp add: onMessage_client)
  then show ?thesis
    by blast
next
  assume "strict_eq (at response 0) PARENT_MESSAGE_SETUP_ERROR"
  then show ?thesis
    using onMessage_setup by blast
qed

lemma onMessage_not_delivers:
  assumes "\<not> delivers R response"
  shows "\<exists>x. onMessage R response w = (Thrown x, w)"
proof (cases "strict_eq (at response 0) PARENT_MESSAGE_CLIENT_ERROR")
  case True
  with assms have "\<not> rebuild_succeeds R response"
    by (simp add: delivers_def)
  then obtain x where "client_error R response = Inl x"
    using client_error_Inr_iff [of R response] by (cases "client_error R response") auto
  then show ?thesis
    using True by (simp add: onMessage_client)
next
  case False
  with assms show ?thesis
    by (simp add: delivers_def onMessage_def)
qed

lemma step_no_send:
  assumes "onProcessEnd w = Some b" and "\<not> is_Send e"
  shows "\<exists>ys. effects (snd (step R e w)) = effects w @ ys \<and> starts ys = [] \<and>
           onProcessEnd (snd (step R e w)) = Some b \<and>
           options (snd (step R e w)) = options w \<and>
           (case e of
              Send request a c \<Rightarrow> True
            | Message response \<Rightarrow>
                retries (snd (step R e w)) = retries w \<and>
                (if delivers R response
                 then fst (step R e w) = Normal \<and> map end_hook (ends ys) = [Some b]
                 else fst (step R e w) \<noteq> Normal \<and> ends ys = [])
            | Exit c \<Rightarrow>
                fst (step R e w) = Normal \<and>
                (if c = 0 then retries (snd (step R e w)) = retries w \<and> ends ys = []
                 else retries (snd (step R e w)) = Some (js_incr (retries w)) \<and>
                      map end_hook (ends ys) =
                        (if js_gt (js_incr (retries w)) (maxRetries (options w))
                         then [Some b] else [])))"
proof (cases e)
  case (Send request a c)
  with assms show ?thesis by simp
next
  case (Message response)
  show ?thesis
  proof (cases "delivers R response")
    case True
    then obtain err res where "onMessage R response w = call_onProcessEnd err res w"
      using onMessage_delivers by blast
    then show ?thesis
      using assms(1) Message True by (simp add: call_onProcessEnd_Some)
  next
    case False
    then obtain x where "onMessage R response w = (Thrown x, w)"
      using onMessage_not_delivers by blast
    then show ?thesis
      using assms(1) Message False by simp
  qed
next
  case (Exit c)
  show ?thesis
  proof (cases "c \<noteq> 0 \<and> retries_exceeded (respawn w)")
    case True
    then have "initialize R w =
        (Normal, emit [CallEnd b (retries_exceeded_error R) JNull] (respawn w))"
      using assms(1) by (simp add: initialize_eq onMessage_reply call_onProcessEnd_Some)
    then show ?thesis
      using assms(1) Exit True by (simp add: onExit_def retries_exceeded_respawn)
  next
    case False
    then show ?thesis
      using assms(1) Exit by (auto simp: onExit_def initialize_eq retries_exceeded_respawn)
  qed
qed

lemma run_no_send:
  assumes "onProcessEnd w = Some b" and "\<forall>e\<in>set es. \<not> is_Send e"
  shows "\<exists>xs. effects (snd (run R es w)) = effects w @ xs \<and> starts xs = [] \<and>
           map end_hook (ends xs) =
             replicate (hook_calls R (maxRetries (options w)) (retries w) es) (Some b)"
  using assms
proof (induction es arbitrary: w)
  case Nil
  then show ?case by simp
next
  case (Cons e es)
  from Cons.prems have e: "\<not> is_Send e" and es: "\<forall>e\<in>set es. \<not> is_Send e"
    by simp_all
  obtain x w' where s: "step R e w = (x, w')"
    by (cases "step R e w")
  from step_no_send [OF Cons.prems(1) e, of R]
  obtain ys where raw: "effects (snd (step R e w)) = effects w @ ys \<and> starts ys = [] \<and>
           onProcessEnd (snd (step R e w)) = Some b \<and>
           options (snd (step R e w)) = options w \<and>
           (case e of
              Send request a c \<Rightarrow> True
            | Message response \<Rightarrow>
                retries (snd (step R e w)) = retries w \<and>
                (if delivers R response
                 then fst (step R e w) = Normal \<and> map end_hook (ends ys) = [Some b]
                 else fst (step R e w) \<noteq> Normal \<and> ends ys = [])
            | Exit c \<Rightarrow>
                fst (step R e w) = Normal \<and>
                (if c = 0 then retries (snd (step R e w)) = retries w \<and> ends ys = []
                 else retries (snd (step R e w)) = Some (js_incr (retries w)) \<and>
                      map end_hook (ends ys) =
                        (if js_gt (js_incr (retries w)) (maxRetries (options w))
                         then [Some b] else [])))"
    by (rule exE)
  note raw' = raw [unfolded s fst_conv snd_conv]
  from raw' have ys: "effects w' = effects w @ ys" "starts ys = []" "onProcessEnd w' = Some b"
    "options w' = options w"
    by (rule conjunct1, rule conjunct2 [THEN conjunct1],
        rule conjunct2 [THEN conjunct2, THEN conjunct1],
        rule conjunct2 [THEN conjunct2, THEN conjunct2, THEN conjunct1])
  from raw' have shape: "case e of
              Send request a c \<Rightarrow> True
            | Message response \<Rightarrow>
                retries w' = retries w \<and>
                (if delivers R response
                 then x = Normal \<and> map end_hook (ends ys) = [Some b]
                 else x \<noteq> Normal \<and> ends ys = [])
            | Exit c \<Rightarrow>
                x = Normal \<and>
                (if c = 0 then retries w' = retries w \<and> ends ys = []
                 else retries w' = Some (js_incr (retries w)) \<and>
                      map end_hook (ends ys) =
                        (if js_gt (js_incr (retries w)) (maxRetries (options w))
                         then [Some b] else []))"
    by (rule conjunct2 [THEN conjunct2, THEN conjunct2, THEN conjunct2])
  from Cons.IH [OF ys(3) es]
  obtain xs where xs: "effects (snd (run R es w')) = effects w' @ xs" "starts xs = []"
    "map end_hook (ends xs) =
       replicate (hook_calls R (maxRetries (options w')) (retries w') es) (Some b)"
    by blast
  show ?case
  proof (cases x)
    case Normal
    have "effects (snd (run R (e # es) w)) = effects w @ (ys @ xs)"
      using s Normal xs(1) ys(1) by simp
    moreover have "starts (ys @ xs) = []"
      using ys(2) xs(2) by simp
    moreover have "map end_hook (ends (ys @ xs)) =
        replicate (hook_calls R (maxRetries (options w)) (retries w) (e # es)) (Some b)"
      using e shape Normal xs(3) ys(4)
      by (cases e) (auto split: if_splits)
    ultimately show ?thesis
      by blast
  next
    case (Thrown t)
    then obtain response where m: "e = Message response" "\<not> delivers R response" "ends ys = []"
      using e shape by (cases e) (auto split: if_splits)
    have "effects (snd (run R (e # es) w)) = effects w @ ys"
      using s Thrown ys(1) by simp
    moreover have "map end_hook (ends ys) =
        replicate (hook_calls R (maxRetries (options w)) (retries w) (e # es)) (Some b)"
      using m by simp
    ultimately show ?thesis
      using ys(2) by blast
  qed
qed

lemma busy_worker_not_ending: "\<not> shutdown_requested busy_worker"
  by (simp add: shutdown_requested_def busy_worker_eq at_def CHILD_MESSAGE_END_def)

lemma set_prop_shape:
  assumes "set_prop R k x (New c a ps) = Inr e"
  shows "\<exists>ps'. e = New c a ps'"
proof (cases "assignment_of R (New c a ps) k x")
  case Stored
  with assms have "e = New c a (AList.update k x ps)"
    unfolding set_prop_def by simp
  then show ?thesis ..
next
  case Ignored
  with assms have "e = New c a ps"
    unfolding set_prop_def by simp
  then show ?thesis ..
next
  case (Refused t)
  with assms show ?thesis
    unfolding set_prop_def by simp
qed

lemma assign_all_shape:
  "assign_all R extra ks (New c a ps) = Inr e \<Longrightarrow> \<exists>ps'. e = New c a ps'"
proof (induction ks arbitrary: ps)
  case Nil
  then have "e = New c a ps"
    by simp
  then show ?case ..
next
  case (Cons k ks)
  then obtain e1 where e1: "set_prop R k (get_prop extra k) (New c a ps) = Inr e1"
    and r: "assign_all R extra ks e1 = Inr e"
    by (auto split: sum.splits)
  from set_prop_shape [OF e1] obtain ps1 where "e1 = New c a ps1"
    by blast
  with r Cons.IH show ?case
    by blast
qed

lemma client_error_shape:
  assumes "at response 4 \<noteq> JNull" and "js_typeof (at response 4) = ''object''"
    and "client_error R response = Inr e"
  shows "\<exists>ps. e = Obj (New (Ctor R (at response 1)) (at response 2) ps)"
proof -
  have u: "at response 4 \<noteq> JUndefined"
    using assms(2) by auto
  from assms u obtain e0 e1 e2 e3 where
    c: "construct R (Ctor R (at response 1)) (at response 2) = Inr e0"
    and t: "set_prop R ''type'' (at response 1) e0 = Inr e1"
    and s: "set_prop R ''stack'' (at response 3) e1 = Inr e2"
    and a: "assign_all R (at response 4) (for_in_keys (at response 4)) e2 = Inr e3"
    and e: "e = Obj e3"
    by (auto simp: client_error_def Let_def split: sum.splits)
  from construct_Inr [OF c] have "e0 = New (Ctor R (at response 1)) (at response 2) []" .
  with t set_prop_shape obtain ps1 where "e1 = New (Ctor R (at response 1)) (at response 2) ps1"
    by blast
  with s set_prop_shape obtain ps2 where "e2 = New (Ctor R (at response 1)) (at response 2) ps2"
    by blast
  with a assign_all_shape obtain ps3 where "e3 = New (Ctor R (at response 1)) (at response 2) ps3"
    by blast
  with e show ?thesis
    by blast
qed

lemma onMessage_client_quiet:
  assumes "strict_eq (at response 0) PARENT_MESSAGE_CLIENT_ERROR"
  shows "spawns (added w (snd (onMessage R response w))) = []"
    and "worker (snd (onMessage R response w)) = worker w"
    and "retries (snd (onMessage R response w)) = retries w"
  by (simp_all add: onMessage_client [OF assms] call_onProcessEnd_fields call_onProcessEnd_spawns
      split: sum.splits)

lemma initialize_added:
  "\<exists>xs. added w (snd (initialize R w)) =
          [Spawn (next_thread w),
           PostMessage (next_thread w)
             [CHILD_MESSAGE_INITIALIZE, JBool False, workerPath (options w), setupArgs (options w)]]
          @ xs \<and> spawns xs = []"
proof -
  have "\<exists>xs. effects (snd (initialize R w)) = effects (respawn w) @ xs \<and> spawns xs = []"
    by (simp add: initialize_eq onMessage_reply call_onProcessEnd_def split: option.splits)
  then obtain xs where xs: "effects (snd (initialize R w)) = effects (respawn w) @ xs"
    and s: "spawns xs = []"
    by blast
  have "added w (snd (initialize R w)) =
        [Spawn (next_thread w),
         PostMessage (next_thread w)
           [CHILD_MESSAGE_INITIALIZE, JBool False, workerPath (options w), setupArgs (options w)]]
        @ xs"
    by (rule added_append) (simp add: xs)
  with s show ?thesis
    by blast
qed

lemma exit_of_busy_worker:
  "snd (onExit node_runtime 1 busy_worker) =
     busy_worker\<lparr>worker := Some 1, retries := Some (Num 1),
       effects := effects busy_worker @
         [Spawn 1, PostMessage 1 [JNum 0, JBool False, JStr ''/worker.js'', JObj []]]\<rparr>"
  by (simp add: busy_worker_eq example_options_def onExit_def initialize_eq
      retries_exceeded_def respawn_def emit_def next_thread_def tag_defs)

lemma send_fresh_worker:
  "send [JNum 1, JBool False, JStr ''run'', JObj []] 7 8 fresh_worker = (Normal, busy_worker)"
  by (simp add: busy_worker_eq) (simp add: fresh_worker_eq send_def emit_def)

lemma three_exits_of_busy_worker:
  "run node_runtime [Exit 1, Exit 1, Exit 1] busy_worker =
     (Normal,
      busy_worker\<lparr>worker := Some 3, retries := Some (Num 3),
        effects := effects busy_worker @
          [Spawn 1, PostMessage 1 [JNum 0, JBool False, JStr ''/worker.js'', JObj []],
           Spawn 2, PostMessage 2 [JNum 0, JBool False, JStr ''/worker.js'', JObj []],
           CallEnd 8 (retries_exceeded_error node_runtime) JNull,
           Spawn 3, PostMessage 3 [JNum 0, JBool False, JStr ''/worker.js'', JObj []],
           CallEnd 8 (retries_exceeded_error node_runtime) JNull]\<rparr>)"
  by (simp add: busy_worker_eq example_options_def onExit_def initialize_eq
      retries_exceeded_def onMessage_reply call_onProcessEnd_def emit_def
      respawn_def next_thread_def tag_defs)

lemma hook_calls_example:
  "hook_calls node_runtime (Num 1) (Some (Num 0))
     [Message [JNum 0, JStr ''done''], Exit 1, Exit 1,
      Message [JNum 2, JStr ''Error'', JStr ''no module'', JStr ''at load''],
      Message [JNum 1, JStr ''TypeError'', JStr ''boom'', JStr ''at f'', JObj []]] = 4"
  by (simp add: delivers_def rebuild_succeeds_def at_def tag_defs Ctor_def construct_def
      node_runtime_def for_in_keys_def)

subsection \<open>Unrecognised messages\<close>

text \<open>
  Claim C5. A message whose tag is none of OK, CLIENT_ERROR and SETUP_ERROR makes
  \<open>onMessage\<close> throw a TypeError whose text names the tag. Nothing was done before the
  throw: the instance is as it was, so no hook was invoked, no thread was spawned and
  the retry counter was not touched.
\<close>

theorem onMessage_unrecognised_throws:
  assumes "\<not> recognised response"
  shows "onMessage R response w =
           (Thrown (TypeError (''Unexpected response from worker: '' @ to_string R (at response 0))), w)
         \<and> added w (snd (onMessage R response w)) = []"
  using assms by (simp add: onMessage_def recognised_def)

text \<open>The theorem at a message with the tag 3, which the worker has no case for.\<close>

theorem onMessage_unrecognised_throws_witness:
  "\<not> recognised [JNum 3, JStr ''progress''] \<and>
   onMessage node_runtime [JNum 3, JStr ''progress''] busy_worker =
     (Thrown (TypeError ''Unexpected response from worker: 3''), busy_worker)"
proof -
  have h: "\<not> recognised [JNum 3, JStr ''progress'']"
    by (simp add: recognised_def at_def tag_defs)
  have d: "decimal 3 = ''3''"
    by (simp add: decimal.simps [of 3])
  show ?thesis
    using h onMessage_unrecognised_throws [OF h, of node_runtime busy_worker]
    by (simp add: at_def d)
qed

subsection \<open>Setup errors\<close>

text \<open>
  Claim C3, as the code has it. A SETUP_ERROR message is escalated at once: \<open>onMessage\<close>
  builds an \<open>Error\<close> whose message is \<open>'Error when calling setup: '\<close> followed by the
  message of the reply, whose \<open>type\<close> is the kind and whose \<open>stack\<close> is the stack of the
  reply, and hands it to the completion hook. It spawns no thread and neither reads nor
  changes the retry counter, whatever retries remain.
\<close>

theorem setup_error_escalates_at_once:
  assumes "strict_eq (at response 0) PARENT_MESSAGE_SETUP_ERROR"
  shows "onMessage R response w = call_onProcessEnd (setup_error R response) JNull w \<and>
         setup_error R response =
           Obj (New ''Error'' (JStr (''Error when calling setup: '' @ to_string R (at response 2)))
             [(''type'', at response 1), (''stack'', at response 3)]) \<and>
         (\<forall>h. onProcessEnd w = Some h \<longrightarrow>
            onMessage R response w = (Normal, emit [CallEnd h (setup_error R response) JNull] w)) \<and>
         spawns (added w (snd (onMessage R response w))) = [] \<and>
         worker (snd (onMessage R response w)) = worker w \<and>
         retries (snd (onMessage R response w)) = retries w"
proof -
  have e: "setup_error R response =
           Obj (New ''Error'' (JStr (''Error when calling setup: '' @ to_string R (at response 2)))
             [(''type'', at response 1), (''stack'', at response 3)])"
    by (simp add: setup_error_def)
  show ?thesis
    unfolding onMessage_setup [OF assms] using e
    by (simp add: call_onProcessEnd_Some call_onProcessEnd_fields call_onProcessEnd_spawns)
qed

text \<open>The theorem at a reply to the worker that has just been sent its first call.\<close>

theorem setup_error_escalates_at_once_witness:
  "strict_eq (at [JNum 2, JStr ''Error'', JStr ''Cannot find module'', JStr ''at load''] 0)
     PARENT_MESSAGE_SETUP_ERROR \<and>
   onMessage node_runtime [JNum 2, JStr ''Error'', JStr ''Cannot find module'', JStr ''at load'']
     busy_worker =
   (Normal, emit [CallEnd 8 (Obj (New ''Error'' (JStr ''Error when calling setup: Cannot find module'')
                   [(''type'', JStr ''Error''), (''stack'', JStr ''at load'')])) JNull] busy_worker) \<and>
   retries (snd (onMessage node_runtime
     [JNum 2, JStr ''Error'', JStr ''Cannot find module'', JStr ''at load''] busy_worker)) = Some (Num 0)"
proof -
  let ?m = "[JNum 2, JStr ''Error'', JStr ''Cannot find module'', JStr ''at load'']"
  have t: "strict_eq (at ?m 0) PARENT_MESSAGE_SETUP_ERROR"
    by (simp add: at_def tag_defs call_onProcessEnd_def)
  have h: "onProcessEnd busy_worker = Some 8" "retries busy_worker = Some (Num 0)"
    by (simp_all add: busy_worker_eq)
  show ?thesis
    using h setup_error_escalates_at_once [OF t, of node_runtime busy_worker]
    by (simp add: at_def tag_defs call_onProcessEnd_def)
qed

text \<open>
  Claim C3 as the spec states it fails: the worker below has used none of its one retry,
  and the first SETUP_ERROR reaches the completion hook \<open>8\<close> with no respawn.
\<close>

theorem setup_error_first_counterexample:
  "retries busy_worker = Some (Num 0) \<and> maxRetries (options busy_worker) = Num 1 \<and>
   onMessage node_runtime
     [PARENT_MESSAGE_SETUP_ERROR, JStr ''Error'', JStr ''Cannot find module'', JStr ''at load'']
     busy_worker =
   (Normal,
    busy_worker\<lparr>effects := effects busy_worker @
      [CallEnd 8 (Obj (New ''Error'' (JStr ''Error when calling setup: Cannot find module'')
                   [(''type'', JStr ''Error''), (''stack'', JStr ''at load'')])) JNull]\<rparr>)"
  by (simp add: busy_worker_eq example_options_def onMessage_def tag_defs at_def setup_error_def
      call_onProcessEnd_def emit_def)

subsection \<open>Client errors whose extra fields are not an object\<close>

text \<open>
  Claim C10. When the extra-fields element of a CLIENT_ERROR message is \<open>null\<close> or is
  not an object, nothing is rebuilt: the element itself is the error that the completion
  hook receives, with a \<open>null\<close> result.
\<close>

theorem client_error_raw_payload:
  assumes "strict_eq (at response 0) PARENT_MESSAGE_CLIENT_ERROR"
    and "at response 4 = JNull \<or> js_typeof (at response 4) \<noteq> ''object''"
  shows "client_error R response = Inr (Raw (at response 4)) \<and>
         onMessage R response w = call_onProcessEnd (Raw (at response 4)) JNull w \<and>
         (\<forall>h. onProcessEnd w = Some h \<longrightarrow>
            onMessage R response w = (Normal, emit [CallEnd h (Raw (at response 4)) JNull] w))"
proof -
  have raw: "client_error R response = Inr (Raw (at response 4))"
    using assms(2) by (rule client_error_raw)
  then show ?thesis
    using onMessage_client [OF assms(1), of R w] by (simp add: call_onProcessEnd_Some)
qed

text \<open>The theorem at the reply for a thrown string.\<close>

theorem client_error_raw_payload_witness:
  "strict_eq (at [JNum 1, JStr ''String'', JUndefined, JUndefined, JStr ''boom''] 0)
     PARENT_MESSAGE_CLIENT_ERROR \<and>
   js_typeof (at [JNum 1, JStr ''String'', JUndefined, JUndefined, JStr ''boom''] 4) \<noteq> ''object'' \<and>
   onMessage node_runtime [JNum 1, JStr ''String'', JUndefined, JUndefined, JStr ''boom'']
     busy_worker = (Normal, emit [CallEnd 8 (Raw (JStr ''boom'')) JNull] busy_worker)"
proof -
  let ?m = "[JNum 1, JStr ''String'', JUndefined, JUndefined, JStr ''boom'']"
  have t: "strict_eq (at ?m 0) PARENT_MESSAGE_CLIENT_ERROR"
    by (simp add: at_def tag_defs call_onProcessEnd_def)
  have x: "js_typeof (at ?m 4) \<noteq> ''object''"
    by (simp add: at_def)
  have h: "onProcessEnd busy_worker = Some 8"
    by (simp add: busy_worker_eq)
  from x have x': "at ?m 4 = JNull \<or> js_typeof (at ?m 4) \<noteq> ''object''" ..
  show ?thesis
    using h client_error_raw_payload [OF t x', of node_runtime busy_worker]
    by (simp add: at_def tag_defs call_onProcessEnd_def)
qed

subsection \<open>Client errors\<close>




text \<open>
  Claim C7, as the code has it. A CLIENT_ERROR message never makes the worker respawn:
  whether \<open>onMessage\<close> returns or throws, no thread is spawned and the thread handle and
  the retry counter stay as they were. It resolves the call through the completion hook
  unless rebuilding the error throws; then \<open>onMessage\<close> throws the same and invokes no
  hook. The error is built from the message of the reply when the extra-fields element
  is an object; otherwise the element itself is the error, and the message of the reply
  is not passed on.
\<close>

theorem client_error_keeps_thread:
  assumes "strict_eq (at response 0) PARENT_MESSAGE_CLIENT_ERROR"
  shows "spawns (added w (snd (onMessage R response w))) = [] \<and>
         worker (snd (onMessage R response w)) = worker w \<and>
         retries (snd (onMessage R response w)) = retries w \<and>
         (\<forall>x. client_error R response = Inl x \<longrightarrow> onMessage R response w = (Thrown x, w)) \<and>
         (\<forall>e. client_error R response = Inr e \<longrightarrow>
            onMessage R response w = call_onProcessEnd e JNull w \<and>
            (\<forall>h. onProcessEnd w = Some h \<longrightarrow>
               onMessage R response w = (Normal, emit [CallEnd h e JNull] w))) \<and>
         (at response 4 \<noteq> JNull \<and> js_typeof (at response 4) = ''object'' \<longrightarrow>
            (\<forall>e. client_error R response = Inr e \<longrightarrow>
               (\<exists>ps. e = Obj (New (Ctor R (at response 1)) (at response 2) ps)))) \<and>
         (at response 4 = JNull \<or> js_typeof (at response 4) \<noteq> ''object'' \<longrightarrow>
            client_error R response = Inr (Raw (at response 4)))"
proof -
  note m = onMessage_client [OF assms, of R w]
  note quiet = onMessage_client_quiet [OF assms, where w = w and R = R]
  have thrown: "onMessage R response w = (Thrown x, w)"
    if "client_error R response = Inl x" for x
    using that by (simp add: m)
  have handed: "onMessage R response w = call_onProcessEnd e JNull w"
    if "client_error R response = Inr e" for e
    using that by (simp add: m)
  have delivered: "onMessage R response w = (Normal, emit [CallEnd h e JNull] w)"
    if "client_error R response = Inr e" "onProcessEnd w = Some h" for e h
    using that by (simp add: m call_onProcessEnd_Some)
  have built: "\<exists>ps. e = Obj (New (Ctor R (at response 1)) (at response 2) ps)"
    if "at response 4 \<noteq> JNull" "js_typeof (at response 4) = ''object''"
      "client_error R response = Inr e" for e
    using that by (rule client_error_shape)
  have raw: "client_error R response = Inr (Raw (at response 4))"
    if "at response 4 = JNull \<or> js_typeof (at response 4) \<noteq> ''object''"
    using that by (rule client_error_raw)
  from quiet thrown handed delivered built raw show ?thesis
    by blast
qed

text \<open>The theorem at the reply for a thrown \<open>RangeError\<close>.\<close>

theorem client_error_keeps_thread_witness:
  "strict_eq (at [JNum 1, JStr ''RangeError'', JStr ''too deep'', JStr ''at g'', JObj []] 0)
     PARENT_MESSAGE_CLIENT_ERROR \<and>
   client_error node_runtime [JNum 1, JStr ''RangeError'', JStr ''too deep'', JStr ''at g'', JObj []] =
     Inr (Obj (New ''RangeError'' (JStr ''too deep'')
         [(''type'', JStr ''RangeError''), (''stack'', JStr ''at g'')])) \<and>
   onMessage node_runtime
     [JNum 1, JStr ''RangeError'', JStr ''too deep'', JStr ''at g'', JObj []] busy_worker =
   (Normal, emit [CallEnd 8
      (Obj (New ''RangeError'' (JStr ''too deep'')
         [(''type'', JStr ''RangeError''), (''stack'', JStr ''at g'')])) JNull] busy_worker) \<and>
   spawns (added busy_worker (snd (onMessage node_runtime
     [JNum 1, JStr ''RangeError'', JStr ''too deep'', JStr ''at g'', JObj []] busy_worker))) = [] \<and>
   worker (snd (onMessage node_runtime
     [JNum 1, JStr ''RangeError'', JStr ''too deep'', JStr ''at g'', JObj []] busy_worker)) = Some 0"
proof -
  let ?m = "[JNum 1, JStr ''RangeError'', JStr ''too deep'', JStr ''at g'', JObj []]"
  let ?e = "Obj (New ''RangeError'' (JStr ''too deep'')
        [(''type'', JStr ''RangeError''), (''stack'', JStr ''at g'')])"
  have t: "strict_eq (at ?m 0) PARENT_MESSAGE_CLIENT_ERROR"
    by (simp add: at_def tag_defs)
  have h: "onProcessEnd busy_worker = Some 8" and w: "worker busy_worker = Some 0"
    by (simp_all add: busy_worker_eq)
  have v: "client_error node_runtime ?m = Inr ?e"
    by (simp add: client_error_def at_def node_runtime_def for_in_keys_def construct_def
        set_prop_def Ctor_def)
  note T = client_error_keeps_thread [OF t, where w = busy_worker and R = node_runtime]
  from T [THEN conjunct1]
  have s: "spawns (added busy_worker (snd (onMessage node_runtime ?m busy_worker))) = []" .
  from T [THEN conjunct2, THEN conjunct1] w
  have k: "worker (snd (onMessage node_runtime ?m busy_worker)) = Some 0"
    by simp
  from T [THEN conjunct2, THEN conjunct2, THEN conjunct2, THEN conjunct2, THEN conjunct1,
      rule_format, OF v, THEN conjunct2, rule_format, OF h]
  have d: "onMessage node_runtime ?m busy_worker =
      (Normal, emit [CallEnd 8 ?e JNull] busy_worker)" .
  from t v d s k show ?thesis
    by (simp only: simp_thms)
qed

text \<open>
  Claim C7 as the spec states it fails in two ways: a CLIENT_ERROR reply with message
  \<open>boom\<close> and \<open>null\<close> for its extra fields resolves the call with the error \<open>null\<close>, which
  carries no message; a reply of kind \<open>Promise\<close> makes \<open>onMessage\<close> throw, and the call
  is not resolved.
\<close>

theorem client_error_message_counterexample:
  "onMessage node_runtime
     [PARENT_MESSAGE_CLIENT_ERROR, JStr ''Error'', JStr ''boom'', JStr ''at f'', JNull]
     busy_worker =
   (Normal, busy_worker\<lparr>effects := effects busy_worker @ [CallEnd 8 (Raw JNull) JNull]\<rparr>) \<and>
   onMessage node_runtime
     [PARENT_MESSAGE_CLIENT_ERROR, JStr ''Promise'', JStr ''boom'', JStr ''at g'',
      JObj [(''code'', JNum 1)]]
     busy_worker =
   (Thrown (TypeError ''Promise resolver is not a function''), busy_worker)"
  by (simp add: busy_worker_eq onMessage_def tag_defs at_def client_error_def node_runtime_def
      call_onProcessEnd_def emit_def construct_def Ctor_def)

subsection \<open>Exits\<close>

text \<open>
  Claim C6, as the code has it. The exit code is all that \<open>onExit\<close> looks at. On an exit
  with a code other than zero, \<open>onExit\<close> is \<open>initialize\<close>, whether a shutdown was
  requested or not: one new thread is spawned, it becomes the current thread and is sent
  INITIALIZE. On an exit with code zero \<open>onExit\<close> does nothing, whether the exit was
  requested or not.
\<close>

theorem onExit_respawns_unless_clean:
  "(exitCode \<noteq> 0 \<longrightarrow>
      onExit R exitCode w = initialize R w \<and>
      worker (snd (onExit R exitCode w)) = Some (next_thread w) \<and>
      spawns (added w (snd (onExit R exitCode w))) = [Spawn (next_thread w)] \<and>
      take 2 (added w (snd (onExit R exitCode w))) =
        [Spawn (next_thread w),
         PostMessage (next_thread w)
           [CHILD_MESSAGE_INITIALIZE, JBool False, workerPath (options w), setupArgs (options w)]]) \<and>
   (exitCode = 0 \<longrightarrow> onExit R exitCode w = (Normal, w))"
proof -
  have w: "worker (snd (initialize R w)) = Some (next_thread w)"
    by (simp add: initialize_eq onMessage_reply call_onProcessEnd_fields)
  have "\<exists>xs. effects (snd (initialize R w)) = effects (respawn w) @ xs \<and> spawns xs = []"
    by (simp add: initialize_eq onMessage_reply call_onProcessEnd_def split: option.splits)
  then obtain xs where xs: "effects (snd (initialize R w)) = effects (respawn w) @ xs"
    and s: "spawns xs = []"
    by blast
  have a: "added w (snd (initialize R w)) =
        [Spawn (next_thread w),
         PostMessage (next_thread w)
           [CHILD_MESSAGE_INITIALIZE, JBool False, workerPath (options w), setupArgs (options w)]]
        @ xs"
    by (rule added_append) (simp add: xs)
  show ?thesis
    by (simp add: onExit_def w a s)
qed

text \<open>
  The theorem at the exits with code 1 and with code 0 of the thread of a busy worker,
  and at the exit with code 1 of a thread that was sent END.
\<close>

theorem onExit_respawns_unless_clean_witness:
  "onExit node_runtime 1 busy_worker = initialize node_runtime busy_worker \<and>
   worker (snd (onExit node_runtime 1 busy_worker)) = Some 1 \<and>
   spawns (added busy_worker (snd (onExit node_runtime 1 busy_worker))) = [Spawn 1] \<and>
   onExit node_runtime 0 busy_worker = (Normal, busy_worker) \<and>
   shutdown_requested (snd (send [CHILD_MESSAGE_END, JBool False] 9 10 busy_worker)) \<and>
   spawns (added (snd (send [CHILD_MESSAGE_END, JBool False] 9 10 busy_worker))
     (snd (onExit node_runtime 1 (snd (send [CHILD_MESSAGE_END, JBool False] 9 10 busy_worker)))))
     = [Spawn 1]"
proof -
  let ?w = "snd (send [CHILD_MESSAGE_END, JBool False] 9 10 busy_worker)"
  have n: "next_thread busy_worker = 1" "next_thread ?w = 1"
    by (simp_all add: next_thread_def busy_worker_eq send_def emit_def)
  have q: "shutdown_requested ?w"
    by (simp add: shutdown_requested_def busy_worker_eq send_def emit_def at_def
        CHILD_MESSAGE_END_def)
  have "spawns (added ?w (snd (onExit node_runtime 1 ?w))) = [Spawn 1]"
    using onExit_respawns_unless_clean [of 1 node_runtime ?w] by (clarsimp simp: n)
  with q show ?thesis
    using onExit_respawns_unless_clean [of 1 node_runtime busy_worker]
      onExit_respawns_unless_clean [of 0 node_runtime busy_worker]
    by (clarsimp simp: n)
qed

text \<open>
  Claim C6 as the spec states it fails: the thread of the worker below was not asked to
  shut down and its call is unresolved; when it exits with code zero nothing is
  respawned.
\<close>

theorem unrequested_clean_exit_counterexample:
  "\<not> shutdown_requested busy_worker \<and>
   ends (effects busy_worker) = [] \<and>
   onExit node_runtime 0 busy_worker = (Normal, busy_worker)"
  by (simp add: busy_worker_not_ending onExit_def) (simp add: busy_worker_eq)

subsection \<open>Dispatch\<close>

text \<open>
  Claim C8. \<open>send\<close> invokes the start hook first, which still finds the retry counter as
  it was; it then installs the completion hook, sets the retry counter to zero, and
  posts the request to the current thread last. Were there no thread, the post would
  throw with the hook invoked and the counter already reset.
\<close>

theorem send_order:
  "(\<forall>t. worker w = Some t \<longrightarrow>
      send request a b w =
        (Normal, w\<lparr>onProcessEnd := Some b, retries := Some (Num 0),
                   effects := effects w @ [CallStart a (retries w), PostMessage t request]\<rparr>)) \<and>
   (worker w = None \<longrightarrow>
      send request a b w =
        (Thrown (TypeError ''Cannot read property postMessage of undefined''),
         w\<lparr>onProcessEnd := Some b, retries := Some (Num 0),
           effects := effects w @ [CallStart a (retries w)]\<rparr>))"
  by (simp add: send_def emit_def)

text \<open>The theorem at the first \<open>send\<close> of a new worker.\<close>

theorem send_order_witness:
  "worker fresh_worker = Some 0 \<and>
   send [JNum 1, JBool False, JStr ''run'', JObj []] 7 8 fresh_worker =
     (Normal, fresh_worker\<lparr>onProcessEnd := Some 8, retries := Some (Num 0),
        effects := effects fresh_worker @
          [CallStart 7 (Some NaN), PostMessage 0 [JNum 1, JBool False, JStr ''run'', JObj []]]\<rparr>)"
proof -
  have t: "worker fresh_worker = Some 0" and r: "retries fresh_worker = Some NaN"
    by (simp_all add: fresh_worker_eq)
  from send_order [of fresh_worker "[JNum 1, JBool False, JStr ''run'', JObj []]" 7 8] t
  have "send [JNum 1, JBool False, JStr ''run'', JObj []] 7 8 fresh_worker =
     (Normal, fresh_worker\<lparr>onProcessEnd := Some 8, retries := Some (Num 0),
        effects := effects fresh_worker @
          [CallStart 7 (retries fresh_worker),
           PostMessage 0 [JNum 1, JBool False, JStr ''run'', JObj []]]\<rparr>)"
    by blast
  with t r show ?thesis
    by simp
qed

subsection \<open>The retry counter\<close>

text \<open>
  Claim C9. The constructor's \<open>initialize\<close> increments a counter that is \<open>undefined\<close>,
  which leaves NaN. Through every sequence of exits that follows before the first
  \<open>send\<close> the counter stays NaN, the test \<open>retries > maxRetries\<close> is false whatever
  \<open>maxRetries\<close> is, every respawn returns normally, and the completion hook is never
  reached; each exit with a code other than zero spawns one more thread.
\<close>

theorem retries_unset_before_first_send:
  "fst (constructor R opts) = Normal \<and>
   retries (snd (constructor R opts)) = Some NaN \<and>
   fst (run R (map Exit codes) (snd (constructor R opts))) = Normal \<and>
   retries (snd (run R (map Exit codes) (snd (constructor R opts)))) = Some NaN \<and>
   \<not> retries_exceeded (snd (run R (map Exit codes) (snd (constructor R opts)))) \<and>
   ends (effects (snd (run R (map Exit codes) (snd (constructor R opts))))) = [] \<and>
   length (spawns (effects (snd (run R (map Exit codes) (snd (constructor R opts)))))) =
     1 + length (filter (\<lambda>c. c \<noteq> 0) codes) \<and>
   (\<forall>w. retries w = None \<or> retries w = Some NaN \<longrightarrow>
      initialize R w = (Normal, respawn w) \<and> retries (respawn w) = Some NaN)"
proof -
  let ?w0 = "\<lparr>worker = None, options = opts, onProcessEnd = None, retries = None, effects = []\<rparr>"
  have c: "constructor R opts = (Normal, respawn ?w0)"
    by (simp add: constructor_def initialize_unset)
  have r: "retries (snd (constructor R opts)) = Some NaN"
    by (simp add: c)
  have e: "ends (effects (snd (constructor R opts))) = []"
    "length (spawns (effects (snd (constructor R opts)))) = 1"
    by (simp_all add: c)
  note run = run_exits_unset [OF r, of R codes]
  have x: "\<not> retries_exceeded (snd (run R (map Exit codes) (snd (constructor R opts))))"
    using run by (simp add: retries_exceeded_def)
  show ?thesis
    using c r e run x by (simp add: initialize_unset)
qed

text \<open>The theorem at a new worker whose thread exits three times before any call.\<close>

theorem retries_unset_before_first_send_witness:
  "retries fresh_worker = Some NaN \<and>
   fst (run node_runtime [Exit 1, Exit 0, Exit 2] fresh_worker) = Normal \<and>
   retries (snd (run node_runtime [Exit 1, Exit 0, Exit 2] fresh_worker)) = Some NaN \<and>
   ends (effects (snd (run node_runtime [Exit 1, Exit 0, Exit 2] fresh_worker))) = [] \<and>
   length (spawns (effects (snd (run node_runtime [Exit 1, Exit 0, Exit 2] fresh_worker)))) = 3"
  using retries_unset_before_first_send [of node_runtime example_options "[1, 0, 2]"]
  by (simp add: fresh_worker_def)

text \<open>
  Claim C1, as the code has it. Once the retry counter holds a number \<open>n\<close>, as it does
  from the first \<open>send\<close> on, \<open>initialize\<close> leaves it at \<open>n + 1\<close>. Every \<open>initialize\<close>
  spawns a new thread and sends it INITIALIZE before it tests the counter, also when the
  counter is past \<open>maxRetries\<close>. When \<open>n + 1\<close> exceeds \<open>maxRetries\<close>, \<open>initialize\<close> then
  hands the emulated CLIENT_ERROR reply to \<open>onMessage\<close>, which rebuilds it to an \<open>Error\<close>
  with message \<open>Call retries were exceeded\<close> and type \<open>WorkerError\<close> for the completion
  hook; otherwise it returns after the respawn. With \<open>maxRetries = M\<close> and the counter
  just reset, the first \<open>M\<close> respawns in a row deliver nothing and the \<open>M + 1\<close>-th delivers
  the error.
\<close>

theorem initialize_counts_retries:
  assumes "retries w = Some (Num n)"
  shows "retries (snd (initialize R w)) = Some (Num (n + 1)) \<and>
         take 2 (added w (snd (initialize R w))) =
           [Spawn (next_thread w),
            PostMessage (next_thread w)
              [CHILD_MESSAGE_INITIALIZE, JBool False, workerPath (options w),
               setupArgs (options w)]] \<and>
         spawns (added w (snd (initialize R w))) = [Spawn (next_thread w)] \<and>
         (js_gt (Num (n + 1)) (maxRetries (options w)) \<longrightarrow>
            initialize R w = onMessage R (retries_exceeded_reply R) (respawn w) \<and>
            client_error R (retries_exceeded_reply R) = Inr (retries_exceeded_error R) \<and>
            (\<forall>h. onProcessEnd w = Some h \<longrightarrow>
               initialize R w =
                 (Normal, emit [CallEnd h (retries_exceeded_error R) JNull] (respawn w)))) \<and>
         (\<not> js_gt (Num (n + 1)) (maxRetries (options w)) \<longrightarrow>
            initialize R w = (Normal, respawn w)) \<and>
         (\<forall>M h c. n = 0 \<and> maxRetries (options w) = Num (int M) \<and> onProcessEnd w = Some h \<and> c \<noteq> 0 \<longrightarrow>
            (\<forall>k\<le>M. fst (run R (replicate k (Exit c)) w) = Normal \<and>
                    ends (effects (snd (run R (replicate k (Exit c)) w))) = ends (effects w)) \<and>
            fst (run R (replicate (Suc M) (Exit c)) w) = Normal \<and>
            ends (effects (snd (run R (replicate (Suc M) (Exit c)) w))) =
              ends (effects w) @ [CallEnd h (retries_exceeded_error R) JNull])"
proof -
  have counted: "retries (snd (initialize R w)) = Some (Num (n + 1))"
    using assms by (simp add: initialize_eq onMessage_reply call_onProcessEnd_fields)
  from initialize_added [of w R] obtain xs where
    a: "added w (snd (initialize R w)) =
          [Spawn (next_thread w),
           PostMessage (next_thread w)
             [CHILD_MESSAGE_INITIALIZE, JBool False, workerPath (options w), setupArgs (options w)]]
          @ xs" and s: "spawns xs = []"
    by blast
  have spawned: "take 2 (added w (snd (initialize R w))) =
           [Spawn (next_thread w),
            PostMessage (next_thread w)
              [CHILD_MESSAGE_INITIALIZE, JBool False, workerPath (options w),
               setupArgs (options w)]]"
    "spawns (added w (snd (initialize R w))) = [Spawn (next_thread w)]"
    by (simp_all add: a s)
  have fires: "initialize R w = onMessage R (retries_exceeded_reply R) (respawn w)"
    if "js_gt (Num (n + 1)) (maxRetries (options w))"
    using that assms by (simp add: initialize_eq retries_exceeded_respawn)
  have delivered: "initialize R w =
      (Normal, emit [CallEnd h (retries_exceeded_error R) JNull] (respawn w))"
    if "js_gt (Num (n + 1)) (maxRetries (options w))" "onProcessEnd w = Some h" for h
    using that assms by (simp add: initialize_exceeded call_onProcessEnd_Some)
  have quiet: "initialize R w = (Normal, respawn w)"
    if "\<not> js_gt (Num (n + 1)) (maxRetries (options w))"
    using that assms by (simp add: initialize_not_exceeded)
  have below: "fst (run R (replicate k (Exit c)) w) = Normal \<and>
      ends (effects (snd (run R (replicate k (Exit c)) w))) = ends (effects w)"
    if "n = 0" "maxRetries (options w) = Num (int M)" "c \<noteq> 0" "k \<le> M" for M c k
  proof -
    have "n + int k \<le> int M"
      using that by simp
    from run_exits_below_bound [OF assms that(2) this that(3), of R] show ?thesis
      by simp
  qed
  have reached: "fst (run R (replicate (Suc M) (Exit c)) w) = Normal \<and>
      ends (effects (snd (run R (replicate (Suc M) (Exit c)) w))) =
        ends (effects w) @ [CallEnd h (retries_exceeded_error R) JNull]"
    if "n = 0" "maxRetries (options w) = Num (int M)" "onProcessEnd w = Some h" "c \<noteq> 0"
    for M h c
    using run_exits_reach_bound [OF _ that(2,3,4), of R] assms that(1) by simp
  from counted spawned fires delivered quiet below reached client_error_reply [of R]
  show ?thesis
    by blast
qed

text \<open>The theorem at a busy worker with \<open>maxRetries = 1\<close>, whose thread exits twice.\<close>

theorem initialize_counts_retries_witness:
  "retries busy_worker = Some (Num 0) \<and>
   retries (snd (initialize node_runtime busy_worker)) = Some (Num 1) \<and>
   initialize node_runtime busy_worker = (Normal, respawn busy_worker) \<and>
   spawns (added busy_worker (snd (initialize node_runtime busy_worker))) = [Spawn 1] \<and>
   ends (effects (snd (run node_runtime (replicate 1 (Exit 1)) busy_worker))) = [] \<and>
   ends (effects (snd (run node_runtime (replicate 2 (Exit 1)) busy_worker))) =
     [CallEnd 8 (retries_exceeded_error node_runtime) JNull]"
proof -
  have r: "retries busy_worker = Some (Num 0)"
    and m: "maxRetries (options busy_worker) = Num (int 1)"
    and h: "onProcessEnd busy_worker = Some 8"
    and e: "ends (effects busy_worker) = []"
    and t: "next_thread busy_worker = 1"
    by (simp_all add: busy_worker_eq example_options_def next_thread_def)
  note T = initialize_counts_retries [OF r, of node_runtime]
  from T have counted: "retries (snd (initialize node_runtime busy_worker)) = Some (Num 1)"
    by simp
  from T [THEN conjunct2, THEN conjunct2, THEN conjunct1]
  have spawned: "spawns (added busy_worker (snd (initialize node_runtime busy_worker))) = [Spawn 1]"
    by (simp add: t)
  have "\<not> js_gt (Num (0 + 1)) (maxRetries (options busy_worker))"
    by (simp add: m)
  with T have quiet: "initialize node_runtime busy_worker = (Normal, respawn busy_worker)"
    by simp
  have p: "(0::int) = 0 \<and> maxRetries (options busy_worker) = Num (int 1) \<and>
      onProcessEnd busy_worker = Some 8 \<and> (1::int) \<noteq> 0"
    using m h by simp
  note runs = T [THEN conjunct2, THEN conjunct2, THEN conjunct2, THEN conjunct2, THEN conjunct2,
      rule_format, where M = 1 and h = 8 and c = 1, OF p]
  from runs [THEN conjunct1, rule_format, of 1]
  have first: "ends (effects (snd (run node_runtime (replicate 1 (Exit 1)) busy_worker))) = []"
    by (simp add: e)
  from runs [THEN conjunct2]
  have second: "ends (effects (snd (run node_runtime (replicate 2 (Exit 1)) busy_worker))) =
     [CallEnd 8 (retries_exceeded_error node_runtime) JNull]"
    by (simp add: e numeral_2_eq_2)
  from r counted quiet spawned first second show ?thesis
    by simp
qed

text \<open>
  Claim C1 as the spec states it fails in two ways. A worker that has not yet been sent
  a call has the counter \<open>undefined\<close>: the constructor's \<open>initialize\<close> leaves NaN, and
  one more \<open>initialize\<close> leaves NaN again. And a worker whose counter has reached
  \<open>maxRetries = 1\<close> is restarted once more by the next \<open>initialize\<close>, which spawns thread
  2 and sends it INITIALIZE before it delivers the error.
\<close>

theorem initialize_unset_counterexample:
  "retries \<lparr>worker = None, options = example_options, onProcessEnd = None, retries = None,
            effects = []\<rparr> = None \<and>
   retries (snd (constructor node_runtime example_options)) = Some NaN \<and>
   retries (snd (initialize node_runtime (snd (constructor node_runtime example_options)))) =
     Some NaN \<and>
   retries (snd (onExit node_runtime 1 busy_worker)) = Some (Num 1) \<and>
   maxRetries (options (snd (onExit node_runtime 1 busy_worker))) = Num 1 \<and>
   added (snd (onExit node_runtime 1 busy_worker))
     (snd (initialize node_runtime (snd (onExit node_runtime 1 busy_worker)))) =
     [Spawn 2, PostMessage 2 [CHILD_MESSAGE_INITIALIZE, JBool False, JStr ''/worker.js'', JObj []],
      CallEnd 8 (retries_exceeded_error node_runtime) JNull]"
proof -
  have a: "retries (snd (constructor node_runtime example_options)) = Some NaN"
    "retries (snd (initialize node_runtime (snd (constructor node_runtime example_options)))) =
       Some NaN"
    by (simp_all add: constructor_def initialize_eq retries_exceeded_respawn)
  have b: "added (snd (onExit node_runtime 1 busy_worker))
     (snd (initialize node_runtime (snd (onExit node_runtime 1 busy_worker)))) =
     [Spawn 2, PostMessage 2 [CHILD_MESSAGE_INITIALIZE, JBool False, JStr ''/worker.js'', JObj []],
      CallEnd 8 (retries_exceeded_error node_runtime) JNull]"
    unfolding exit_of_busy_worker
    by (simp add: busy_worker_eq example_options_def initialize_eq retries_exceeded_def
        onMessage_reply call_onProcessEnd_def respawn_def emit_def next_thread_def added_def)
  have c: "retries (snd (onExit node_runtime 1 busy_worker)) = Some (Num 1)"
    "maxRetries (options (snd (onExit node_runtime 1 busy_worker))) = Num 1"
    unfolding exit_of_busy_worker by (simp_all add: busy_worker_eq example_options_def)
  from a b c show ?thesis
    by simp
qed

subsection \<open>The hooks of a call\<close>

text \<open>
  Claim C2, as the code has it. From the \<open>send\<close> of a call to the next \<open>send\<close>, the start
  hook of the call is invoked once, by \<open>send\<close>. Its completion hook is invoked once by
  every message with a recognised tag whose error can be rebuilt, and once by every exit
  with a code other than zero that takes the count of such exits past \<open>maxRetries\<close>, and
  by nothing else; no other hook is invoked. The worker keeps no record of a call that
  has resolved, so the call resolves as often as such events arrive.
\<close>

theorem call_resolved_once_per_event:
  assumes "send request a b w = (Normal, w1)" and "\<forall>e\<in>set es. \<not> is_Send e"
  shows "starts (added w (snd (run R es w1))) = [CallStart a (retries w)] \<and>
         map end_hook (ends (added w (snd (run R es w1)))) =
           replicate (hook_calls R (maxRetries (options w)) (Some (Num 0)) es) (Some b)"
proof -
  from assms(1) obtain t where t: "worker w = Some t"
    by (cases "worker w") (auto simp: send_def)
  from assms(1) have w1: "onProcessEnd w1 = Some b"
    "effects w1 = effects w @ [CallStart a (retries w), PostMessage t request]"
    "retries w1 = Some (Num 0)" "options w1 = options w"
    by (auto simp: send_def t)
  from run_no_send [OF w1(1) assms(2), of R]
  obtain xs where xs: "effects (snd (run R es w1)) = effects w1 @ xs" "starts xs = []"
    "map end_hook (ends xs) =
       replicate (hook_calls R (maxRetries (options w1)) (retries w1) es) (Some b)"
    by blast
  have "added w (snd (run R es w1)) = [CallStart a (retries w), PostMessage t request] @ xs"
    by (rule added_append) (simp add: xs(1) w1(2))
  then show ?thesis
    using xs(2,3) w1(3,4) by simp
qed

text \<open>
  The theorem at the first call of a new worker, which is answered OK, whose thread then
  exits twice, and which is answered again with a SETUP_ERROR and a CLIENT_ERROR.
\<close>

theorem call_resolved_once_per_event_witness:
  "send [JNum 1, JBool False, JStr ''run'', JObj []] 7 8 fresh_worker = (Normal, busy_worker) \<and>
   starts (added fresh_worker (snd (run node_runtime
     [Message [JNum 0, JStr ''done''], Exit 1, Exit 1,
      Message [JNum 2, JStr ''Error'', JStr ''no module'', JStr ''at load''],
      Message [JNum 1, JStr ''TypeError'', JStr ''boom'', JStr ''at f'', JObj []]]
     busy_worker))) = [CallStart 7 (Some NaN)] \<and>
   map end_hook (ends (added fresh_worker (snd (run node_runtime
     [Message [JNum 0, JStr ''done''], Exit 1, Exit 1,
      Message [JNum 2, JStr ''Error'', JStr ''no module'', JStr ''at load''],
      Message [JNum 1, JStr ''TypeError'', JStr ''boom'', JStr ''at f'', JObj []]]
     busy_worker)))) = [Some 8, Some 8, Some 8, Some 8]"
proof -
  let ?es = "[Message [JNum 0, JStr ''done''], Exit 1, Exit 1,
      Message [JNum 2, JStr ''Error'', JStr ''no module'', JStr ''at load''],
      Message [JNum 1, JStr ''TypeError'', JStr ''boom'', JStr ''at f'', JObj []]]"
  have e: "\<forall>e\<in>set ?es. \<not> is_Send e"
    by simp
  have r: "retries fresh_worker = Some NaN" "maxRetries (options fresh_worker) = Num 1"
    by (simp_all add: fresh_worker_eq example_options_def)
  note T = call_resolved_once_per_event [OF send_fresh_worker e, of node_runtime,
      unfolded r hook_calls_example]
  have "replicate 4 (Some (8::nat)) = [Some 8, Some 8, Some 8, Some 8]"
    by (simp add: numeral_eq_Suc)
  with T send_fresh_worker show ?thesis
    by (simp only:)
qed

text \<open>
  Claim C2 as the spec states it fails: with \<open>maxRetries = 1\<close>, the second and the third
  exit in a row each resolve the call of hook \<open>8\<close> with the retries-exceeded error.
\<close>

theorem call_resolved_twice_counterexample:
  "snd (send [JNum 1, JBool False, JStr ''run'', JObj []] 7 8 fresh_worker) = busy_worker \<and>
   ends (added busy_worker (snd (run node_runtime [Exit 1, Exit 1, Exit 1] busy_worker))) =
     [CallEnd 8 (retries_exceeded_error node_runtime) JNull,
      CallEnd 8 (retries_exceeded_error node_runtime) JNull]"
  unfolding send_fresh_worker three_exits_of_busy_worker
  by (simp add: added_def)

end
